theory Spec2Isabelle
  imports Complex_Main "HOL-Library.Log_Nat" "HOL-Library.AList" "HOL-Library.Multiset"
begin

section \<open>JavaScript numbers\<close>

text \<open>
  A JavaScript number is an IEEE-754 binary64 value. The finite ones are carried as the
  rational they denote; the two zeros are identified (no operation of the modelled code
  tells them apart). A number of the JSON payload is the decimal that was written, and
  \<open>fl\<close> is the rounding to the nearest binary64 value (ties to even, gradual underflow,
  overflow to infinity) that \<open>JSON.parse\<close> and every arithmetic operation apply.
\<close>

datatype jsnum = NaN | PosInf | NegInf | Fin rat

definition round_half_even :: "rat \<Rightarrow> int" where
  "round_half_even x =
     (let f = \<lfloor>x\<rfloor>; d = x - of_int f
      in if d < 1 / 2 then f else if 1 / 2 < d then f + 1 else if even f then f else f + 1)"

text \<open>For \<open>0 < x\<close>, \<open>binade x\<close> is the exponent \<open>e\<close> with \<open>2\<^sup>e \<le> x < 2\<^sup>e\<^sup>+\<^sup>1\<close>.\<close>

definition binade :: "rat \<Rightarrow> int" where
  "binade x =
     (if 1 \<le> x then int (floorlog 2 (nat \<lfloor>x\<rfloor>)) - 1
      else - int (floorlog 2 (nat (\<lceil>1 / x\<rceil> - 1))))"

definition fl :: "rat \<Rightarrow> jsnum" where
  "fl x =
     (if x = 0 then Fin 0
      else
        let e = max (binade \<bar>x\<bar>) (- 1022);
            m = round_half_even (\<bar>x\<bar> / 2 powi (e - 52))
        in if 1024 \<le> e \<or> (e = 1023 \<and> m = 2 ^ 53) then (if 0 < x then PosInf else NegInf)
           else Fin (sgn x * of_int m * 2 powi (e - 52)))"

text \<open>The smallest positive binary64 value; every finite one is a multiple of it.\<close>

definition min_subnormal :: rat where
  "min_subnormal = 2 powi (- 1074)"

text \<open>The relational comparison \<open>x < y\<close> of two numbers: false as soon as one is \<open>NaN\<close>.\<close>

fun num_lt :: "jsnum \<Rightarrow> jsnum \<Rightarrow> bool" where
  "num_lt NaN y = False"
| "num_lt x NaN = False"
| "num_lt x NegInf = False"
| "num_lt NegInf y = True"
| "num_lt PosInf y = False"
| "num_lt (Fin a) PosInf = True"
| "num_lt (Fin a) (Fin b) = (a < b)"

text \<open>\<open>x <= y\<close> on numbers.\<close>

definition num_le :: "jsnum \<Rightarrow> jsnum \<Rightarrow> bool" where
  "num_le x y = (x \<noteq> NaN \<and> y \<noteq> NaN \<and> \<not> num_lt y x)"

text \<open>
  A value that is a number or \<open>undefined\<close> (\<open>None\<close>): \<open>ToNumber\<close> turns
  \<open>undefined\<close> into \<open>NaN\<close>, and \<open>a > b\<close> compares the two numbers.
\<close>

definition ToNumber :: "jsnum option \<Rightarrow> jsnum" where
  "ToNumber v = (case v of None \<Rightarrow> NaN | Some n \<Rightarrow> n)"

definition js_gt :: "jsnum option \<Rightarrow> jsnum option \<Rightarrow> bool" where
  "js_gt a b = num_lt (ToNumber b) (ToNumber a)"

section \<open>The analysis result received from the backend\<close>

text \<open>
  A field of a record of the JSON payload that the code reads as a coordinate: absent,
  \<open>null\<close>, a boolean, a number (the decimal as written) or a string. A string is a list
  of 8-bit characters, the Latin-1 range of JavaScript's code units.
\<close>

datatype json = JAbsent | JNull | JBool bool | JNumber rat | JString string

text \<open>
  One scored consumer. The identifier, the transformer and the risk class are strings,
  the score is a number of the payload (the decimal as written); each may be absent
  (\<open>None\<close>, read by the code as \<open>undefined\<close>).
\<close>

record consumer =
  consumer_id :: "string option"
  transformer_id :: "string option"
  latitude :: json
  longitude :: json
  aggregate_risk_score :: "rat option"
  risk_class :: "string option"

record summary_card =
  grid_health_score :: json
  critical_cases :: json
  anomalies_detected :: json
  total_loss_calculated :: json

record analysis_result =
  summary :: "summary_card option"
  anomalies :: "consumer list option"
  results :: "consumer list option"

text \<open>\<open>item.aggregate_risk_score\<close>: the binary64 value of the score, or \<open>undefined\<close>.\<close>

definition score :: "consumer \<Rightarrow> jsnum option" where
  "score item = map_option fl (aggregate_risk_score item)"

section \<open>getUniqueConsumers\<close>

text \<open>
  \<open>uniqueConsumers\<close> is an ordinary object used as a dictionary: its own properties are
  an association list in creation order, keyed by strings. A property key is the
  \<open>ToString\<close> of the value in the brackets, so an absent \<open>consumer_id\<close> is the key
  \<open>undefined\<close>; a template literal applies \<open>ToString\<close> as well.
\<close>

type_synonym js_object = "(string \<times> consumer) list"

definition ToString :: "string option \<Rightarrow> string" where
  "ToString v = (case v of None \<Rightarrow> ''undefined'' | Some s \<Rightarrow> s)"

text \<open>
  A read \<open>uniqueConsumers[key]\<close> of a key that is not an own property finds the
  properties of \<open>Object.prototype\<close>: functions, and the prototype itself under
  \<open>__proto__\<close>. They are truthy and have no \<open>aggregate_risk_score\<close>.
\<close>

definition object_prototype_keys :: "string list" where
  "object_prototype_keys =
     [''constructor'', ''__defineGetter__'', ''__defineSetter__'', ''hasOwnProperty'',
      ''__lookupGetter__'', ''__lookupSetter__'', ''isPrototypeOf'', ''propertyIsEnumerable'',
      ''toString'', ''valueOf'', ''__proto__'', ''toLocaleString'']"

text \<open>
  The body of the \<open>forEach\<close> callback. A stored item is an object, hence truthy, so
  \<open>!uniqueConsumers[key]\<close> holds exactly when the key is neither an own nor an inherited
  property. Assigning to an existing own property keeps its place; a new one goes last.
  For an inherited property the comparison is with \<open>undefined\<close>.
\<close>

definition addConsumer :: "js_object \<Rightarrow> consumer \<Rightarrow> js_object" where
  "addConsumer uniqueConsumers item =
     (let key = ToString (consumer_id item) in
      case map_of uniqueConsumers key of
        Some stored \<Rightarrow>
          if js_gt (score item) (score stored)
          then AList.update key item uniqueConsumers
          else uniqueConsumers
      | None \<Rightarrow>
          if key \<in> set object_prototype_keys
          then (if js_gt (score item) None
                then AList.update key item uniqueConsumers
                else uniqueConsumers)
          else AList.update key item uniqueConsumers)"

text \<open>
  \<open>Object.values\<close> lists the own properties: first those whose key is an array index
  (a canonical decimal numeral below \<open>2\<^sup>3\<^sup>2 - 1\<close>) in ascending numeric order, then
  the others in creation order.
\<close>

definition is_digit :: "char \<Rightarrow> bool" where
  "is_digit c = (48 \<le> (of_char c :: nat) \<and> (of_char c :: nat) \<le> 57)"

definition digit_value :: "char \<Rightarrow> nat" where
  "digit_value c = of_char c - 48"

definition nat_of_digits :: "string \<Rightarrow> nat" where
  "nat_of_digits s = foldl (\<lambda>n c. 10 * n + digit_value c) 0 s"

definition is_array_index :: "string \<Rightarrow> bool" where
  "is_array_index s =
     (s \<noteq> [] \<and> list_all is_digit s \<and> (length s = 1 \<or> hd s \<noteq> CHR ''0'')
      \<and> nat_of_digits s \<le> 4294967294)"

definition object_values :: "js_object \<Rightarrow> consumer list" where
  "object_values obj =
     map snd (sort_key (\<lambda>p. nat_of_digits (fst p)) (filter (\<lambda>p. is_array_index (fst p)) obj))
     @ map snd (filter (\<lambda>p. \<not> is_array_index (fst p)) obj)"

text \<open>\<open>data\<close> is the component's property: \<open>None\<close> when it is \<open>null\<close> or \<open>undefined\<close>.\<close>

definition getUniqueConsumers :: "analysis_result option \<Rightarrow> consumer list" where
  "getUniqueConsumers data =
     (case data of
        None \<Rightarrow> []
      | Some d \<Rightarrow>
          (case results d of
             None \<Rightarrow> []
           | Some rs \<Rightarrow> object_values (foldl addConsumer [] rs)))"

section \<open>Arithmetic, truthiness and number formatting\<close>

text \<open>
  \<open>x * y\<close> and \<open>x - y\<close> on numbers: the exact result, rounded to binary64.
\<close>

fun num_sign :: "jsnum \<Rightarrow> int" where
  "num_sign NaN = 0"
| "num_sign PosInf = 1"
| "num_sign NegInf = - 1"
| "num_sign (Fin a) = (if 0 < a then 1 else if a < 0 then - 1 else 0)"

definition js_times :: "jsnum \<Rightarrow> jsnum \<Rightarrow> jsnum" where
  "js_times x y =
     (if x = NaN \<or> y = NaN then NaN
      else case (x, y) of
        (Fin a, Fin b) \<Rightarrow> fl (a * b)
      | _ \<Rightarrow> (let s = num_sign x * num_sign y
              in if s = 0 then NaN else if 0 < s then PosInf else NegInf))"

fun js_minus :: "jsnum \<Rightarrow> jsnum \<Rightarrow> jsnum" where
  "js_minus NaN y = NaN"
| "js_minus x NaN = NaN"
| "js_minus (Fin a) (Fin b) = fl (a - b)"
| "js_minus PosInf PosInf = NaN"
| "js_minus NegInf NegInf = NaN"
| "js_minus PosInf y = PosInf"
| "js_minus NegInf y = NegInf"
| "js_minus (Fin a) PosInf = NegInf"
| "js_minus (Fin a) NegInf = PosInf"

text \<open>
  \<open>(item.aggregate_risk_score || 0)\<close>: the score when it is truthy, and 0 when it is
  \<open>undefined\<close>, zero or \<open>NaN\<close>.
\<close>

definition score_or_zero :: "consumer \<Rightarrow> jsnum" where
  "score_or_zero item =
     (case score item of
        None \<Rightarrow> Fin 0
      | Some v \<Rightarrow> if v = NaN \<or> v = Fin 0 then Fin 0 else v)"

fun decimal_digits :: "nat \<Rightarrow> string" where
  "decimal_digits n =
     (if n < 10 then [char_of (48 + n)]
      else decimal_digits (n div 10) @ [char_of (48 + n mod 10)])"

declare decimal_digits.simps [simp del]

text \<open>
  \<open>x.toFixed(0)\<close>: the sign, then the integer \<open>n\<close> for which \<open>n - \<bar>x\<bar>\<close> is as close to
  zero as possible, the larger one if there are two. From \<open>10\<^sup>2\<^sup>1\<close> on the result is the
  exponential notation of \<open>Number.prototype.toString\<close>, whose digits are not modelled
  (\<open>None\<close>).
\<close>

definition toFixed0 :: "jsnum \<Rightarrow> string option" where
  "toFixed0 x =
     (case x of
        NaN \<Rightarrow> Some ''NaN''
      | PosInf \<Rightarrow> Some ''Infinity''
      | NegInf \<Rightarrow> Some ''-Infinity''
      | Fin q \<Rightarrow>
          if 10 ^ 21 \<le> \<bar>q\<bar> then None
          else
            let f = \<lfloor>\<bar>q\<bar>\<rfloor>;
                n = (if \<bar>q\<bar> - of_int f < 1 / 2 then f else f + 1)
            in Some ((if q < 0 then ''-'' else []) @ decimal_digits (nat n)))"

section \<open>Strings: toLowerCase and parseFloat\<close>

definition lower_char :: "char \<Rightarrow> char" where
  "lower_char c =
     (let n = (of_char c :: nat)
      in if (65 \<le> n \<and> n \<le> 90) \<or> (192 \<le> n \<and> n \<le> 222 \<and> n \<noteq> 215)
         then char_of (n + 32) else c)"

definition toLowerCase :: "string \<Rightarrow> string" where
  "toLowerCase s = map lower_char s"

text \<open>White space and line terminators, as far as they are 8-bit characters.\<close>

definition is_white_space :: "char \<Rightarrow> bool" where
  "is_white_space c = ((of_char c :: nat) \<in> {9, 10, 11, 12, 13, 32, 160})"

text \<open>
  \<open>parseFloat\<close> reads the longest prefix of the trimmed string that is a
  \<open>StrDecimalLiteral\<close>: an optional sign, then \<open>Infinity\<close> or decimal digits with an
  optional fraction and an optional exponent. Without such a prefix the result is \<open>NaN\<close>.
\<close>

datatype literal = NoLiteral | InfinityLiteral | DecimalLiteral rat

definition exponent_part :: "string \<Rightarrow> int" where
  "exponent_part r =
     (case r of
        [] \<Rightarrow> 0
      | c # t \<Rightarrow>
          if c = CHR ''e'' \<or> c = CHR ''E''
          then (let negative = (t \<noteq> [] \<and> hd t = CHR ''-'');
                    signed = (t \<noteq> [] \<and> (hd t = CHR ''-'' \<or> hd t = CHR ''+''));
                    ds = takeWhile is_digit (if signed then tl t else t)
                in if ds = [] then 0
                   else if negative then - int (nat_of_digits ds) else int (nat_of_digits ds))
          else 0)"

definition unsigned_literal :: "string \<Rightarrow> literal" where
  "unsigned_literal s =
     (if take 8 s = ''Infinity'' then InfinityLiteral
      else
        let ip = takeWhile is_digit s;
            r1 = dropWhile is_digit s;
            has_point = (r1 \<noteq> [] \<and> hd r1 = CHR ''.'');
            fp = (if has_point then takeWhile is_digit (tl r1) else []);
            r2 = (if has_point then dropWhile is_digit (tl r1) else r1)
        in if ip = [] \<and> fp = [] then NoLiteral
           else DecimalLiteral
                  ((of_nat (nat_of_digits ip) + of_nat (nat_of_digits fp) / 10 ^ length fp)
                   * 10 powi exponent_part r2))"

definition parse_float_string :: "string \<Rightarrow> jsnum" where
  "parse_float_string s =
     (let t = dropWhile is_white_space s;
          negative = (t \<noteq> [] \<and> hd t = CHR ''-'');
          signed = (t \<noteq> [] \<and> (hd t = CHR ''-'' \<or> hd t = CHR ''+''))
      in case unsigned_literal (if signed then tl t else t) of
           NoLiteral \<Rightarrow> NaN
         | InfinityLiteral \<Rightarrow> if negative then NegInf else PosInf
         | DecimalLiteral q \<Rightarrow> fl (if negative then - q else q))"

text \<open>
  \<open>parseFloat\<close> applies \<open>ToString\<close> first: \<open>undefined\<close>, \<open>null\<close>, \<open>true\<close> and
  \<open>false\<close> have no numeric prefix, and a number is read back as itself.
\<close>

definition parseFloat :: "json \<Rightarrow> jsnum" where
  "parseFloat v =
     (case v of
        JAbsent \<Rightarrow> NaN
      | JNull \<Rightarrow> NaN
      | JBool b \<Rightarrow> NaN
      | JNumber q \<Rightarrow> fl q
      | JString s \<Rightarrow> parse_float_string s)"

definition isNaN :: "jsnum \<Rightarrow> bool" where
  "isNaN x = (x = NaN)"

section \<open>MapComponent: markers\<close>

text \<open>
  A marker as the component constructs it: its position, the fill colour of its icon,
  its title, and the content of the info window that a click on it opens.
\<close>

record marker =
  position :: "jsnum \<times> jsnum"
  fillColor :: string
  title :: string
  content :: "string option"

definition red :: string where
  "red = ''#ef4444''"

definition yellow :: string where
  "yellow = ''#eab308''"

definition popup_content :: "string \<Rightarrow> string \<Rightarrow> string" where
  \<open>popup_content shown_id percent =
     [CHR 0x0A] @ replicate 20 CHR '' '' @ ''<div style="color: black; padding: 5px;">''
     @ [CHR 0x0A] @ replicate 24 CHR '' '' @ ''<strong>ID: '' @ shown_id @ ''</strong><br/>''
     @ [CHR 0x0A] @ replicate 24 CHR '' '' @ ''Risk: '' @ percent @ ''%''
     @ [CHR 0x0A] @ replicate 20 CHR '' '' @ ''</div>''
     @ [CHR 0x0A] @ replicate 16 CHR '' ''\<close>

text \<open>\<open>((item.aggregate_risk_score || 0) * 100).toFixed(0)\<close>\<close>

definition risk_percent :: "consumer \<Rightarrow> string option" where
  "risk_percent item = toFixed0 (js_times (score_or_zero item) (Fin 100))"

text \<open>\<open>(item.risk_class || '')\<close>: the empty string replaces an absent or empty class.\<close>

definition risk_or_empty :: "consumer \<Rightarrow> string" where
  "risk_or_empty item = (case risk_class item of None \<Rightarrow> [] | Some s \<Rightarrow> s)"

text \<open>
  The callback of \<open>consumers.forEach\<close> in \<open>updateMarkers\<close>: \<open>None\<close> when it returns
  before constructing a marker, otherwise the marker it pushes. The constructors of the
  map library are taken to return normally.
\<close>

definition marker_of_item :: "consumer \<Rightarrow> marker option" where
  "marker_of_item item =
     (let lat = parseFloat (latitude item);
          lng = parseFloat (longitude item)
      in if isNaN lat \<or> isNaN lng then None
         else
           let risk = toLowerCase (risk_or_empty item)
           in if risk \<noteq> ''theft'' \<and> risk \<noteq> ''critical'' \<and> risk \<noteq> ''mild'' then None
              else
                let color = (if risk = ''mild'' then yellow else red)
                in Some \<lparr>position = (lat, lng), fillColor = color,
                     title = ''Consumer: '' @ ToString (consumer_id item) @ '' (''
                             @ ToString (risk_class item) @ '')'',
                     content = map_option (popup_content (ToString (consumer_id item)))
                                 (risk_percent item)\<rparr>)"

definition push_marker :: "marker list \<Rightarrow> consumer \<Rightarrow> marker list" where
  "push_marker markers item =
     (case marker_of_item item of None \<Rightarrow> markers | Some m \<Rightarrow> markers @ [m])"

text \<open>
  The state of the component: the host element (\<open>mapRef.current\<close>), the map surface
  (\<open>googleMapRef.current\<close>, the number of the surface among those constructed), the
  markers on the map, the error shown, and the surfaces the library has constructed so
  far, each with its host element.
\<close>

record component =
  mapRef :: "nat option"
  googleMapRef :: "nat option"
  markersRef :: "marker list"
  error :: "string option"
  surfaces :: "nat list"

definition updateMarkers :: "analysis_result option \<Rightarrow> component \<Rightarrow> component" where
  "updateMarkers data st =
     (if googleMapRef st = None then st
      else st\<lparr>markersRef := foldl push_marker [] (getUniqueConsumers data)\<rparr>)"

text \<open>
  \<open>initializeMap\<close>; \<open>constructs\<close> tells whether the library's \<open>Map\<close> constructor
  returns (or throws, which the \<open>catch\<close> block turns into the error message).
\<close>

definition initializeMap :: "bool \<Rightarrow> analysis_result option \<Rightarrow> component \<Rightarrow> component" where
  "initializeMap constructs data st =
     (case mapRef st of
        None \<Rightarrow> st
      | Some host \<Rightarrow>
          if googleMapRef st \<noteq> None then st
          else if constructs
          then updateMarkers data
                 (st\<lparr>googleMapRef := Some (length (surfaces st)),
                     surfaces := surfaces st @ [host]\<rparr>)
          else st\<lparr>error := Some ''Google Maps API loaded but initialization failed.''\<rparr>)"

section \<open>ResultsDisplay\<close>

text \<open>
  \<open>Array.prototype.sort\<close> with a comparator, as the language defines it: a stable sort,
  in which \<open>a\<close> comes after \<open>b\<close> only if \<open>compareFn(a, b) > 0\<close>. The elements are
  inserted from the last to the first, each before the first element it need not follow.
\<close>

fun insert_sorted :: "('a \<Rightarrow> 'a \<Rightarrow> jsnum) \<Rightarrow> 'a \<Rightarrow> 'a list \<Rightarrow> 'a list" where
  "insert_sorted compareFn x [] = [x]"
| "insert_sorted compareFn x (y # ys) =
     (if num_lt (Fin 0) (compareFn x y) then y # insert_sorted compareFn x ys
      else x # y # ys)"

definition array_sort :: "('a \<Rightarrow> 'a \<Rightarrow> jsnum) \<Rightarrow> 'a list \<Rightarrow> 'a list" where
  "array_sort compareFn xs = foldr (insert_sorted compareFn) xs []"

definition normalItems :: "analysis_result \<Rightarrow> consumer list" where
  "normalItems d =
     (case results d of
        None \<Rightarrow> []
      | Some rs \<Rightarrow> filter (\<lambda>item. risk_class item = Some ''normal'') rs)"

definition by_risk_descending :: "consumer \<Rightarrow> consumer \<Rightarrow> jsnum" where
  "by_risk_descending a b = js_minus (score_or_zero b) (score_or_zero a)"

definition sortedNormalItems :: "analysis_result \<Rightarrow> consumer list" where
  "sortedNormalItems d = array_sort by_risk_descending (normalItems d)"

text \<open>A table row: identifier, transformer, risk percentage and risk class.\<close>

record table_row =
  id_cell :: "string option"
  transformer_cell :: "string option"
  percent_cell :: "string option"
  class_cell :: "string option"

definition row_of :: "consumer \<Rightarrow> table_row" where
  "row_of item = \<lparr>id_cell = consumer_id item, transformer_cell = transformer_id item,
     percent_cell = risk_percent item, class_cell = risk_class item\<rparr>"

text \<open>
  What the component renders: \<open>None\<close> for \<open>null\<close>; otherwise the summary cards, the
  anomalies table and the table of normal entries, each table \<open>None\<close> when it is not
  shown. Reading the cards of an absent summary throws a \<open>TypeError\<close>.
\<close>

datatype js_error = TypeError

record rendering =
  cards :: summary_card
  anomalies_table :: "table_row list option"
  normal_table :: "table_row list option"

definition ResultsDisplay :: "bool \<Rightarrow> analysis_result option \<Rightarrow> js_error + rendering option" where
  "ResultsDisplay showAll data =
     (case data of
        None \<Rightarrow> Inr None
      | Some d \<Rightarrow>
          (case summary d of
             None \<Rightarrow> Inl TypeError
           | Some s \<Rightarrow>
               Inr (Some \<lparr>cards = s,
                  anomalies_table =
                    (case anomalies d of
                       None \<Rightarrow> None
                     | Some an \<Rightarrow> if 0 < length an then Some (map row_of an) else None),
                  normal_table =
                    (if showAll \<and> 0 < length (sortedNormalItems d)
                     then Some (map row_of (sortedNormalItems d)) else None)\<rparr>)))"

section \<open>Example records\<close>

definition example_summary :: summary_card where
  "example_summary = \<lparr>grid_health_score = JNumber 90, critical_cases = JNumber 1,
     anomalies_detected = JNumber 1, total_loss_calculated = JNumber 0\<rparr>"

definition theft_record :: consumer where
  "theft_record = \<lparr>consumer_id = Some ''C1'', transformer_id = Some ''T1'',
     latitude = JNumber (286 / 10), longitude = JNumber (772 / 10),
     aggregate_risk_score = Some (9 / 10), risk_class = Some ''theft''\<rparr>"

definition anomalies_only :: analysis_result where
  "anomalies_only = \<lparr>summary = Some example_summary, anomalies = Some [theft_record], results = None\<rparr>"

definition record_A :: consumer where
  "record_A = \<lparr>consumer_id = Some ''A'', transformer_id = Some ''T1'',
     latitude = JNumber (286 / 10), longitude = JNumber (772 / 10),
     aggregate_risk_score = Some (1 / 10), risk_class = Some ''normal''\<rparr>"

definition record_B :: consumer where
  "record_B = \<lparr>consumer_id = Some ''B'', transformer_id = Some ''T1'',
     latitude = JNumber (286 / 10), longitude = JNumber (772 / 10),
     aggregate_risk_score = Some (9 / 10), risk_class = Some ''normal''\<rparr>"

definition record_C :: consumer where
  "record_C = \<lparr>consumer_id = Some ''C'', transformer_id = Some ''T2'',
     latitude = JNumber (286 / 10), longitude = JNumber (772 / 10),
     aggregate_risk_score = Some (1 / 2), risk_class = Some ''normal''\<rparr>"

definition all_records :: analysis_result where
  "all_records = \<lparr>summary = Some example_summary, anomalies = Some [theft_record],
     results = Some [record_A, theft_record, record_B, record_C]\<rparr>"

definition mild_record :: consumer where
  "mild_record = \<lparr>consumer_id = Some ''C7'', transformer_id = None,
     latitude = JNumber (286 / 10), longitude = JNumber (772 / 10),
     aggregate_risk_score = Some (145 / 1000), risk_class = Some ''mild''\<rparr>"

definition mild_without_latitude :: consumer where
  "mild_without_latitude = mild_record\<lparr>latitude := JString ''N/A''\<rparr>"

definition theft_at_infinity :: consumer where
  "theft_at_infinity = theft_record\<lparr>latitude := JString ''Infinity''\<rparr>"

definition results_of :: "consumer list \<Rightarrow> analysis_result option" where
  "results_of rs = Some \<lparr>summary = Some example_summary, anomalies = None, results = Some rs\<rparr>"

definition mounted :: component where
  "mounted = \<lparr>mapRef = Some 0, googleMapRef = None, markersRef = [], error = None,
     surfaces = []\<rparr>"

definition ready :: component where
  "ready = \<lparr>mapRef = Some 0, googleMapRef = Some 0, markersRef = [], error = None,
     surfaces = [0]\<rparr>"

definition upper_case_theft :: consumer where
  "upper_case_theft = theft_record\<lparr>risk_class := Some ''THEFT''\<rparr>"

definition suspicious_record :: consumer where
  "suspicious_record = theft_record\<lparr>risk_class := Some ''Suspicious''\<rparr>"

definition constructor_record :: consumer where
  "constructor_record = theft_record\<lparr>consumer_id := Some ''constructor''\<rparr>"

definition unscored_A :: consumer where
  "unscored_A = \<lparr>consumer_id = Some ''A'', transformer_id = Some ''T1'',
     latitude = JNumber (286 / 10), longitude = JNumber (772 / 10),
     aggregate_risk_score = None, risk_class = Some ''normal''\<rparr>"

definition low_A :: consumer where
  "low_A = unscored_A\<lparr>aggregate_risk_score := Some (3 / 10)\<rparr>"

definition scored_A :: consumer where
  "scored_A = unscored_A\<lparr>aggregate_risk_score := Some (7 / 10), risk_class := Some ''theft''\<rparr>"


section \<open>Rounding to binary64 keeps the sign of a difference\<close>

lemma min_subnormal_pos: "0 < min_subnormal"
  unfolding min_subnormal_def by (rule zero_less_power_int) simp

lemma binade_lower: "0 < x \<Longrightarrow> 2 powi (binade x) \<le> x"
proof (cases "1 \<le> x")
  case True
  define n where "n = nat \<lfloor>x\<rfloor>"
  have n: "0 < n" using True by (simp add: n_def)
  have k: "1 \<le> floorlog 2 n" using n by (simp add: floorlog_def)
  have "2 ^ (floorlog 2 n - 1) \<le> n" using floorlog_bounds [of n 2] n by simp
  then have "(2::rat) ^ (floorlog 2 n - 1) \<le> of_nat n"
    by (metis of_nat_le_iff of_nat_numeral of_nat_power)
  also have "(of_nat n :: rat) = of_int \<lfloor>x\<rfloor>" using True by (simp add: n_def)
  also have "\<dots> \<le> x" by simp
  finally have "(2::rat) ^ (floorlog 2 n - 1) \<le> x" .
  moreover have "binade x = int (floorlog 2 n - 1)"
    using True k by (simp add: binade_def n_def)
  ultimately show ?thesis by (simp only: power_int_of_nat)
next
  case False
  assume x: "0 < x"
  define c where "c = \<lceil>1 / x\<rceil>"
  define m where "m = nat (c - 1)"
  define k where "k = floorlog 2 m"
  have "1 < 1 / x" using False x by (simp add: field_simps)
  then have c2: "2 \<le> c" unfolding c_def by (simp add: le_ceiling_iff)
  then have m: "0 < m" by (simp add: m_def)
  have "m < 2 ^ k" using floorlog_bounds [of m 2] m by (simp add: k_def)
  then have "int m + 1 \<le> 2 ^ k"
    by (metis Suc_leI add.commute of_nat_Suc of_nat_le_iff of_nat_numeral of_nat_power plus_1_eq_Suc)
  then have "c \<le> 2 ^ k" using c2 by (simp add: m_def)
  then have "(of_int c :: rat) \<le> 2 ^ k"
    by (metis of_int_le_iff of_int_numeral of_int_power)
  moreover have "1 / x \<le> of_int c" by (simp add: c_def)
  ultimately have "1 / x \<le> 2 ^ k" by linarith
  then have "1 / 2 ^ k \<le> x" using x by (simp add: field_simps)
  moreover have "(2::rat) powi (- int k) = 1 / 2 ^ k"
    by (simp only: power_int_minus power_int_of_nat inverse_eq_divide)
  moreover have "binade x = - int k" using False by (simp add: binade_def k_def m_def c_def)
  ultimately show ?thesis by simp
qed

lemma round_half_even_ge: "of_int n \<le> x \<Longrightarrow> n \<le> round_half_even x"
proof -
  assume "of_int n \<le> x"
  then have "n \<le> \<lfloor>x\<rfloor>" by (simp add: le_floor_iff)
  then show ?thesis by (simp add: round_half_even_def Let_def)
qed

lemma ulp_split:
  assumes "- 1022 \<le> e"
  shows "(2::rat) powi (e - 52) = of_int (2 ^ nat (e + 1022)) * min_subnormal"
proof -
  have "e - 52 = int (nat (e + 1022)) + (- 1074)" using assms by simp
  then have "(2::rat) powi (e - 52) = 2 powi (int (nat (e + 1022))) * 2 powi (- 1074)"
    by (metis power_int_add zero_neq_numeral)
  then show ?thesis
    by (simp only: power_int_of_nat of_int_power of_int_numeral min_subnormal_def)
qed

lemma fl_unfold:
  assumes "x \<noteq> 0"
  shows "fl x =
     (if 1024 \<le> max (binade \<bar>x\<bar>) (- 1022) \<or>
         (max (binade \<bar>x\<bar>) (- 1022) = 1023 \<and>
          round_half_even (\<bar>x\<bar> / 2 powi (max (binade \<bar>x\<bar>) (- 1022) - 52)) = 2 ^ 53)
      then (if 0 < x then PosInf else NegInf)
      else Fin (sgn x * of_int (round_half_even (\<bar>x\<bar> / 2 powi (max (binade \<bar>x\<bar>) (- 1022) - 52)))
                * 2 powi (max (binade \<bar>x\<bar>) (- 1022) - 52)))"
  using assms by (simp only: fl_def Let_def if_False)

lemma fl_grid: "fl x = Fin r \<Longrightarrow> \<exists>n::int. r = of_int n * min_subnormal"
proof (cases "x = 0")
  case True
  assume "fl x = Fin r"
  with True have "r = of_int 0 * min_subnormal" by (simp add: fl_def)
  then show ?thesis by blast
next
  case False
  assume a: "fl x = Fin r"
  define e where "e = max (binade \<bar>x\<bar>) (- 1022)"
  define m where "m = round_half_even (\<bar>x\<bar> / 2 powi (e - 52))"
  have e: "- 1022 \<le> e" by (simp add: e_def)
  have "fl x = (if 1024 \<le> e \<or> (e = 1023 \<and> m = 2 ^ 53)
      then (if 0 < x then PosInf else NegInf)
      else Fin (sgn x * of_int m * 2 powi (e - 52)))"
    unfolding m_def e_def by (rule fl_unfold [OF False])
  with a have "r = sgn x * of_int m * 2 powi (e - 52)"
    by (cases "1024 \<le> e \<or> (e = 1023 \<and> m = 2 ^ 53)") (simp_all only: if_True if_False jsnum.inject jsnum.distinct split: if_splits)
  then have "r = sgn x * of_int m * (of_int (2 ^ nat (e + 1022)) * min_subnormal)"
    by (simp only: ulp_split [OF e])
  moreover have "sgn x = of_int (if 0 < x then 1 else - 1)"
    using False by (simp add: sgn_if)
  ultimately have "r = of_int ((if 0 < x then 1 else - 1) * m * 2 ^ nat (e + 1022)) * min_subnormal"
    by (simp only: of_int_mult mult.assoc)
  then show ?thesis by blast
qed

lemma fl_pos:
  assumes "min_subnormal \<le> x"
  shows "num_lt (Fin 0) (fl x)"
proof -
  have x: "0 < x" using assms min_subnormal_pos by linarith
  define e where "e = max (binade \<bar>x\<bar>) (- 1022)"
  define m where "m = round_half_even (\<bar>x\<bar> / 2 powi (e - 52))"
  have u: "0 < (2::rat) powi (e - 52)" by (rule zero_less_power_int) simp
  have "(2::rat) powi (e - 52) \<le> x"
  proof (cases "- 1022 \<le> binade \<bar>x\<bar>")
    case True
    then have "e = binade x" using x by (simp add: e_def)
    moreover have "(2::rat) powi (binade x - 52) \<le> 2 powi (binade x)"
      by (rule power_int_increasing) simp_all
    ultimately show ?thesis using binade_lower [OF x] by simp
  next
    case False
    then have "e - 52 = - 1074" by (simp add: e_def)
    then show ?thesis using assms by (simp only: min_subnormal_def)
  qed
  then have "of_int 1 \<le> \<bar>x\<bar> / 2 powi (e - 52)" using u x by (simp add: field_simps)
  then have m: "1 \<le> m" unfolding m_def by (rule round_half_even_ge)
  have pos: "0 < sgn x * of_int m * 2 powi (e - 52)" using x m u by (simp add: sgn_if)
  have "fl x = (if 1024 \<le> e \<or> (e = 1023 \<and> m = 2 ^ 53)
      then (if 0 < x then PosInf else NegInf)
      else Fin (sgn x * of_int m * 2 powi (e - 52)))"
    unfolding m_def e_def by (rule fl_unfold) (use x in simp)
  then have "fl x = PosInf \<or> fl x = Fin (sgn x * of_int m * 2 powi (e - 52))"
    using x by (cases "1024 \<le> e \<or> (e = 1023 \<and> m = 2 ^ 53)") (simp_all only: if_True if_False simp_thms)
  then show ?thesis using pos by auto
qed

lemma fl_nonpos:
  assumes "x \<le> 0"
  shows "\<not> num_lt (Fin 0) (fl x)"
proof (cases "x = 0")
  case True
  then show ?thesis by (simp add: fl_def)
next
  case False
  define e where "e = max (binade \<bar>x\<bar>) (- 1022)"
  define m where "m = round_half_even (\<bar>x\<bar> / 2 powi (e - 52))"
  have u: "0 < (2::rat) powi (e - 52)" by (rule zero_less_power_int) simp
  have "of_int 0 \<le> \<bar>x\<bar> / 2 powi (e - 52)" using u by simp
  then have m: "0 \<le> m" unfolding m_def by (rule round_half_even_ge)
  have x: "x < 0" using assms False by simp
  have neg: "\<not> 0 < sgn x * of_int m * 2 powi (e - 52)" using x m u
    by (simp add: sgn_if mult_le_0_iff not_less)
  have "fl x = (if 1024 \<le> e \<or> (e = 1023 \<and> m = 2 ^ 53)
      then (if 0 < x then PosInf else NegInf)
      else Fin (sgn x * of_int m * 2 powi (e - 52)))"
    unfolding m_def e_def by (rule fl_unfold [OF False])
  then have "fl x = NegInf \<or> fl x = Fin (sgn x * of_int m * 2 powi (e - 52))"
    using x by (cases "1024 \<le> e \<or> (e = 1023 \<and> m = 2 ^ 53)") (simp_all only: if_True if_False not_less_iff_gr_or_eq, simp_all)
  then show ?thesis using neg by auto
qed

lemma fl_minus_sign:
  assumes "fl x = Fin a" and "fl y = Fin b"
  shows "num_lt (Fin 0) (fl (b - a)) \<longleftrightarrow> a < b"
proof (cases "a < b")
  case True
  obtain n1 :: int where a: "a = of_int n1 * min_subnormal" using fl_grid [OF assms(1)] by blast
  obtain n2 :: int where b: "b = of_int n2 * min_subnormal" using fl_grid [OF assms(2)] by blast
  note g = min_subnormal_pos
  from True a b g have "n1 < n2" by (simp add: mult_less_cancel_right)
  then have "(1::rat) \<le> of_int (n2 - n1)" by (metis of_int_1_le_iff diff_gt_0_iff_gt zless_imp_add1_zle add_0)
  then have "1 * min_subnormal \<le> of_int (n2 - n1) * min_subnormal"
    using g by (simp only: mult_le_cancel_right) simp
  then have "min_subnormal \<le> b - a" by (simp add: a b algebra_simps)
  then show ?thesis using True fl_pos by simp
next
  case False
  then have "b - a \<le> 0" by simp
  then show ?thesis using False fl_nonpos by simp
qed

lemma fl_not_NaN: "fl x \<noteq> NaN"
proof (cases "x = 0")
  case True
  then show ?thesis by (simp add: fl_def)
next
  case False
  show ?thesis
    unfolding fl_unfold [OF False] by (simp only: jsnum.distinct split: if_splits, simp)
qed

lemma score_or_zero_cases:
  "score_or_zero item = PosInf \<or> score_or_zero item = NegInf
   \<or> (\<exists>q r. score_or_zero item = Fin r \<and> fl q = Fin r)"
proof -
  have z: "fl 0 = Fin 0" by (simp add: fl_def)
  show ?thesis
  proof (cases "aggregate_risk_score item")
    case None
    then have "score_or_zero item = Fin 0" by (simp add: score_or_zero_def score_def)
    with z show ?thesis by blast
  next
    case (Some q)
    show ?thesis
    proof (cases "fl q")
      case NaN
      then show ?thesis using fl_not_NaN by blast
    next
      case PosInf
      with Some show ?thesis by (simp add: score_or_zero_def score_def)
    next
      case NegInf
      with Some show ?thesis by (simp add: score_or_zero_def score_def)
    next
      case (Fin r)
      show ?thesis
      proof (cases "r = 0")
        case True
        with Fin Some have "score_or_zero item = Fin 0" by (simp add: score_or_zero_def score_def)
        with z show ?thesis by blast
      next
        case False
        with Fin Some have "score_or_zero item = Fin r" by (simp add: score_or_zero_def score_def)
        with Fin show ?thesis by blast
      qed
    qed
  qed
qed

lemma score_or_zero_not_NaN: "score_or_zero item \<noteq> NaN"
  using score_or_zero_cases [of item] by auto

lemma by_risk_descending_sign:
  "num_lt (Fin 0) (by_risk_descending a b) \<longleftrightarrow> num_lt (score_or_zero a) (score_or_zero b)"
proof -
  consider "score_or_zero a = PosInf" | "score_or_zero a = NegInf"
    | q r where "score_or_zero a = Fin r" "fl q = Fin r"
    using score_or_zero_cases [of a] by auto
  then show ?thesis
  proof cases
    case 1
    then show ?thesis using score_or_zero_cases [of b]
      by (auto simp: by_risk_descending_def)
  next
    case 2
    then show ?thesis using score_or_zero_cases [of b]
      by (auto simp: by_risk_descending_def)
  next
    case (3 q r)
    consider "score_or_zero b = PosInf" | "score_or_zero b = NegInf"
      | q' r' where "score_or_zero b = Fin r'" "fl q' = Fin r'"
      using score_or_zero_cases [of b] by auto
    then show ?thesis
    proof cases
      case 1
      with 3 show ?thesis by (simp add: by_risk_descending_def)
    next
      case 2
      with 3 show ?thesis by (simp add: by_risk_descending_def)
    next
      case (3 q' r')
      with \<open>score_or_zero a = Fin r\<close> \<open>fl q = Fin r\<close> show ?thesis
        using fl_minus_sign [of q r q' r'] by (simp add: by_risk_descending_def)
    qed
  qed
qed

section \<open>The sort is a stable sort by descending score\<close>

lemma num_lt_asym: "num_lt a b \<Longrightarrow> \<not> num_lt b a"
  by (cases a; cases b) auto

lemma num_lt_irrefl: "\<not> num_lt a a"
  by (cases a) auto

lemma num_lt_cotrans: "num_lt a c \<Longrightarrow> b \<noteq> NaN \<Longrightarrow> num_lt a b \<or> num_lt b c"
  by (cases a; cases b; cases c) auto

lemma set_insert_sorted: "set (insert_sorted c x ys) = insert x (set ys)"
  by (induction ys) auto

lemma mset_insert_sorted: "mset (insert_sorted c x ys) = add_mset x (mset ys)"
  by (induction ys) auto

lemma array_sort_Cons: "array_sort c (x # xs) = insert_sorted c x (array_sort c xs)"
  by (simp add: array_sort_def)

lemma mset_array_sort: "mset (array_sort c xs) = mset xs"
  by (induction xs) (simp_all add: array_sort_Cons mset_insert_sorted, simp add: array_sort_def)

lemma sorted_insert_sorted:
  assumes "\<And>x y. num_lt (Fin 0) (c x y) \<longleftrightarrow> num_lt (k x) (k y)"
    and "\<And>x. k x \<noteq> NaN"
    and "sorted_wrt (\<lambda>a b. num_le (k b) (k a)) ys"
  shows "sorted_wrt (\<lambda>a b. num_le (k b) (k a)) (insert_sorted c x ys)"
  using assms(3)
proof (induction ys)
  case Nil
  then show ?case by simp
next
  case (Cons y ys)
  show ?case
  proof (cases "num_lt (k x) (k y)")
    case True
    then have "num_le (k x) (k y)" using assms(2) num_lt_asym by (simp add: num_le_def)
    with True Cons show ?thesis
      by (auto simp: assms(1) set_insert_sorted)
  next
    case False
    have "num_le (k z) (k x)" if "z \<in> set ys" for z
    proof -
      from that Cons.prems have "\<not> num_lt (k y) (k z)" by (auto simp: num_le_def)
      with False have "\<not> num_lt (k x) (k z)" using num_lt_cotrans [of "k x" "k z" "k y"] assms(2) by blast
      then show ?thesis using assms(2) by (simp add: num_le_def)
    qed
    with False Cons.prems show ?thesis
      using assms(2) by (auto simp: assms(1) num_le_def)
  qed
qed

lemma sorted_array_sort:
  assumes "\<And>x y. num_lt (Fin 0) (c x y) \<longleftrightarrow> num_lt (k x) (k y)"
    and "\<And>x. k x \<noteq> NaN"
  shows "sorted_wrt (\<lambda>a b. num_le (k b) (k a)) (array_sort c xs)"
proof (induction xs)
  case Nil
  then show ?case by (simp add: array_sort_def)
next
  case (Cons x xs)
  then show ?case
    unfolding array_sort_Cons by (rule sorted_insert_sorted [OF assms])
qed

lemma filter_insert_sorted:
  assumes "\<And>x y. num_lt (Fin 0) (c x y) \<longleftrightarrow> num_lt (k x) (k y)"
  shows "filter (\<lambda>z. k z = v) (insert_sorted c x ys) = filter (\<lambda>z. k z = v) (x # ys)"
proof (induction ys)
  case Nil
  then show ?case by simp
next
  case (Cons y ys)
  show ?case
  proof (cases "num_lt (k x) (k y)")
    case True
    then have "\<not> (k x = v \<and> k y = v)" using num_lt_irrefl by auto
    with True Cons show ?thesis by (auto simp: assms)
  next
    case False
    then show ?thesis by (simp add: assms)
  qed
qed

lemma filter_array_sort:
  assumes "\<And>x y. num_lt (Fin 0) (c x y) \<longleftrightarrow> num_lt (k x) (k y)"
  shows "filter (\<lambda>z. k z = v) (array_sort c xs) = filter (\<lambda>z. k z = v) xs"
proof (induction xs)
  case Nil
  then show ?case by (simp add: array_sort_def)
next
  case (Cons x xs)
  then show ?case
    unfolding array_sort_Cons by (simp add: filter_insert_sorted [where k = k, OF assms])
qed

section \<open>Properties of getUniqueConsumers\<close>

text \<open>
  C2, as amended: the ranked view is built from \<open>results\<close> (all records) alone. The
  \<open>anomalies\<close> sequence is never read: replacing it changes nothing, and when \<open>results\<close>
  is absent the view is empty whatever \<open>anomalies\<close> holds.
\<close>

theorem ranked_view_from_results_only:
  "getUniqueConsumers (Some (d\<lparr>anomalies := a\<rparr>)) = getUniqueConsumers (Some d)
   \<and> (results d = None \<longrightarrow> getUniqueConsumers (Some d) = [])
   \<and> (results d = Some rs \<longrightarrow>
        getUniqueConsumers (Some d) = object_values (foldl addConsumer [] rs))"
  by (simp add: getUniqueConsumers_def)

theorem ranked_view_from_results_only_witness:
  "getUniqueConsumers (Some (anomalies_only\<lparr>anomalies := None\<rparr>))
     = getUniqueConsumers (Some anomalies_only)
   \<and> results anomalies_only = None
   \<and> getUniqueConsumers (Some anomalies_only) = []
   \<and> results all_records = Some [record_A, theft_record, record_B, record_C]
   \<and> getUniqueConsumers (Some all_records)
       = object_values (foldl addConsumer [] [record_A, theft_record, record_B, record_C])"
proof -
  have n: "results anomalies_only = None" by (simp add: anomalies_only_def)
  have r: "results all_records = Some [record_A, theft_record, record_B, record_C]"
    by (simp add: all_records_def)
  show ?thesis
    using ranked_view_from_results_only [where d = anomalies_only and a = None]
      ranked_view_from_results_only
        [where d = all_records and rs = "[record_A, theft_record, record_B, record_C]"]
      n r
    by blast
qed

text \<open>
  C2 as stated fails: with \<open>results\<close> absent and one anomaly, the ranked view
  is empty.
\<close>

theorem anomalies_fallback_counterexample:
  "results anomalies_only = None \<and> anomalies anomalies_only = Some [theft_record]
   \<and> getUniqueConsumers (Some anomalies_only) = []"
  by (simp add: anomalies_only_def getUniqueConsumers_def)

section \<open>Properties of the sort by risk\<close>

lemma fl_one_tenth: "fl (1 / 10) = Fin (3602879701896397 / 36028797018963968)"
  by code_simp

lemma fl_nine_tenths: "fl (9 / 10) = Fin (8106479329266893 / 9007199254740992)"
  by code_simp

lemma fl_one_half: "fl (1 / 2) = Fin (1 / 2)"
  by code_simp

lemmas example_scores = fl_one_tenth fl_nine_tenths fl_one_half
  record_A_def record_B_def record_C_def theft_record_def score_or_zero_def score_def

lemma sort_example:
  "array_sort by_risk_descending [record_A, record_B, record_C] = [record_B, record_C, record_A]"
  by (simp add: array_sort_def by_risk_descending_sign example_scores)

text \<open>
  C5: the sort of \<open>ResultsDisplay\<close> (the specification's \<open>sortDescendingByRisk\<close>)
  orders any sequence of records by \<open>aggregate_risk_score\<close> descending, an absent
  score counting as 0: no record is followed by one with a greater score. It keeps
  every record, and records with equal scores keep their relative input order; the
  records A (0.1), B (0.9), C (0.5) come out as B, C, A.
\<close>

theorem sort_by_risk_descending_stable:
  "sorted_wrt (\<lambda>a b. num_le (score_or_zero b) (score_or_zero a)) (array_sort by_risk_descending xs)
   \<and> mset (array_sort by_risk_descending xs) = mset xs
   \<and> filter (\<lambda>r. score_or_zero r = v) (array_sort by_risk_descending xs)
       = filter (\<lambda>r. score_or_zero r = v) xs
   \<and> array_sort by_risk_descending [record_A, record_B, record_C]
       = [record_B, record_C, record_A]"
proof -
  have "sorted_wrt (\<lambda>a b. num_le (score_or_zero b) (score_or_zero a)) (array_sort by_risk_descending xs)"
    by (rule sorted_array_sort [OF by_risk_descending_sign score_or_zero_not_NaN])
  moreover have "filter (\<lambda>r. score_or_zero r = v) (array_sort by_risk_descending xs)
       = filter (\<lambda>r. score_or_zero r = v) xs"
    by (rule filter_array_sort [OF by_risk_descending_sign])
  ultimately show ?thesis by (simp add: mset_array_sort sort_example)
qed

theorem sort_by_risk_descending_stable_witness:
  "sorted_wrt (\<lambda>a b. num_le (score_or_zero b) (score_or_zero a)) [record_B, record_C, record_A]
   \<and> filter (\<lambda>r. score_or_zero r = score_or_zero record_C) [record_B, record_C, record_A] = [record_C]"
  using sort_by_risk_descending_stable
    [of "[record_A, record_B, record_C]" "score_or_zero record_C", unfolded sort_example]
  by (simp add: example_scores)

section \<open>Properties of ResultsDisplay\<close>

lemma normalItems_all_records: "normalItems all_records = [record_A, record_B, record_C]"
  by (simp add: normalItems_def all_records_def record_A_def record_B_def record_C_def
      theft_record_def)

lemma sortedNormalItems_all_records:
  "sortedNormalItems all_records = [record_B, record_C, record_A]"
  by (simp only: sortedNormalItems_def normalItems_all_records sort_example)

text \<open>
  C7: whenever \<open>ResultsDisplay\<close> shows the table of normal entries, the viewer has
  opted in (\<open>showAll\<close>), and the rows are the rows of exactly the records of
  \<open>results\<close> whose \<open>risk_class\<close> is \<open>normal\<close>, each as often as it occurs there,
  ordered by \<open>aggregate_risk_score\<close> descending: no row is followed by one with a
  greater score.
\<close>

theorem normal_entries_table:
  assumes "ResultsDisplay showAll (Some d) = Inr (Some v)"
    and "normal_table v = Some rows"
  shows "showAll
    \<and> (\<exists>rs. results d = Some rs
          \<and> rows = map row_of (sortedNormalItems d)
          \<and> mset (sortedNormalItems d)
              = mset (filter (\<lambda>item. risk_class item = Some ''normal'') rs)
          \<and> sorted_wrt (\<lambda>a b. num_le (score_or_zero b) (score_or_zero a))
                (sortedNormalItems d))"
proof -
  from assms obtain s where s: "summary d = Some s"
    by (cases "summary d") (simp_all add: ResultsDisplay_def)
  from assms s have shown: "showAll \<and> 0 < length (sortedNormalItems d)"
    and rows: "rows = map row_of (sortedNormalItems d)"
    by (auto simp: ResultsDisplay_def split: if_splits)
  from shown have "normalItems d \<noteq> []"
    by (auto simp: sortedNormalItems_def array_sort_def)
  then obtain rs where rs: "results d = Some rs"
    by (cases "results d") (simp_all add: normalItems_def)
  then have "mset (sortedNormalItems d)
      = mset (filter (\<lambda>item. risk_class item = Some ''normal'') rs)"
    by (simp add: sortedNormalItems_def normalItems_def mset_array_sort)
  moreover have "sorted_wrt (\<lambda>a b. num_le (score_or_zero b) (score_or_zero a))
      (sortedNormalItems d)"
    unfolding sortedNormalItems_def
    by (rule sorted_array_sort [OF by_risk_descending_sign score_or_zero_not_NaN])
  ultimately show ?thesis using shown rows rs by blast
qed

theorem normal_entries_table_witness:
  "ResultsDisplay True (Some all_records)
     = Inr (Some \<lparr>cards = example_summary, anomalies_table = Some [row_of theft_record],
                  normal_table = Some (map row_of [record_B, record_C, record_A])\<rparr>)
   \<and> results all_records = Some [record_A, theft_record, record_B, record_C]
   \<and> mset [record_B, record_C, record_A]
        = mset (filter (\<lambda>item. risk_class item = Some ''normal'')
                  [record_A, theft_record, record_B, record_C])
   \<and> sorted_wrt (\<lambda>a b. num_le (score_or_zero b) (score_or_zero a))
        [record_B, record_C, record_A]"
proof -
  have rd: "ResultsDisplay True (Some all_records)
     = Inr (Some \<lparr>cards = example_summary, anomalies_table = Some [row_of theft_record],
                  normal_table = Some (map row_of [record_B, record_C, record_A])\<rparr>)"
  proof -
    have "summary all_records = Some example_summary" "anomalies all_records = Some [theft_record]"
      by (simp_all add: all_records_def)
    then show ?thesis by (simp add: ResultsDisplay_def sortedNormalItems_all_records)
  qed
  have nt: "normal_table \<lparr>cards = example_summary, anomalies_table = Some [row_of theft_record],
                  normal_table = Some (map row_of [record_B, record_C, record_A])\<rparr>
      = Some (map row_of [record_B, record_C, record_A])"
    by simp
  have rs: "results all_records = Some [record_A, theft_record, record_B, record_C]"
    by (simp add: all_records_def)
  show ?thesis
    using normal_entries_table [OF rd nt] rd rs
    by (simp add: sortedNormalItems_all_records)
qed

section \<open>Properties of initializeMap\<close>

text \<open>
  C9: once the map surface has been constructed (\<open>googleMapRef.current\<close> holds its
  handle), \<open>initializeMap\<close> changes nothing, whether or not the library's constructor
  would succeed: the handle is the same and no further surface is constructed.
\<close>

theorem initializeMap_idempotent:
  assumes "googleMapRef st = Some h"
  shows "initializeMap constructs data st = st
    \<and> googleMapRef (initializeMap constructs data st) = Some h
    \<and> surfaces (initializeMap constructs data st) = surfaces st"
  using assms by (simp add: initializeMap_def split: option.splits)

lemma first_initializeMap:
  "googleMapRef (initializeMap True data mounted) = Some 0
   \<and> surfaces (initializeMap True data mounted) = [0]"
  by (simp add: initializeMap_def updateMarkers_def mounted_def)

theorem initializeMap_idempotent_witness:
  "googleMapRef (initializeMap True (results_of [theft_record]) mounted) = Some 0
   \<and> initializeMap True (results_of [theft_record])
        (initializeMap True (results_of [theft_record]) mounted)
      = initializeMap True (results_of [theft_record]) mounted
   \<and> surfaces (initializeMap True (results_of [theft_record])
        (initializeMap True (results_of [theft_record]) mounted)) = [0]"
proof -
  have h: "googleMapRef (initializeMap True (results_of [theft_record]) mounted) = Some 0"
    using first_initializeMap by blast
  show ?thesis
    using initializeMap_idempotent [OF h, of True "results_of [theft_record]"] first_initializeMap
    by simp
qed

section \<open>Properties of the markers\<close>

lemma nearest_integer_half_up:
  "(if a - of_int \<lfloor>a\<rfloor> < 1 / 2 then \<lfloor>a\<rfloor> else \<lfloor>a\<rfloor> + 1) = \<lfloor>(a::rat) + 1 / 2\<rfloor>"
proof (cases "a - of_int \<lfloor>a\<rfloor> < 1 / 2")
  case True
  have "\<lfloor>a + 1 / 2\<rfloor> = \<lfloor>a\<rfloor>"
    by (rule floor_unique) (use True in linarith)+
  with True show ?thesis by simp
next
  case False
  have "\<lfloor>a + 1 / 2\<rfloor> = \<lfloor>a\<rfloor> + 1"
    by (rule floor_unique) (use False in \<open>simp; linarith\<close>)+
  with False show ?thesis by simp
qed

lemma toFixed0_round_half_up:
  assumes "\<bar>x\<bar> < 10 ^ 21"
  shows "toFixed0 (Fin x)
    = Some ((if x < 0 then ''-'' else []) @ decimal_digits (nat \<lfloor>\<bar>x\<bar> + 1 / 2\<rfloor>))"
proof -
  have "\<not> 10 ^ 21 \<le> \<bar>x\<bar>" using assms by simp
  then have "toFixed0 (Fin x)
    = Some ((if x < 0 then ''-'' else [])
        @ decimal_digits (nat (if \<bar>x\<bar> - of_int \<lfloor>\<bar>x\<bar>\<rfloor> < 1 / 2 then \<lfloor>\<bar>x\<bar>\<rfloor> else \<lfloor>\<bar>x\<bar>\<rfloor> + 1)))"
    by (simp only: toFixed0_def Let_def jsnum.case if_False)
  then show ?thesis by (simp only: nearest_integer_half_up)
qed

lemma foldl_push_marker:
  "foldl push_marker ms xs = ms @ List.map_filter marker_of_item xs"
  by (induction xs arbitrary: ms) (auto simp: push_marker_def List.map_filter_simps split: option.splits)

lemma parseFloat_number: "\<not> isNaN (parseFloat (JNumber q))"
  by (simp add: isNaN_def parseFloat_def fl_not_NaN)

lemma updateMarkers_ready:
  "googleMapRef st \<noteq> None \<Longrightarrow>
   markersRef (updateMarkers data st) = List.map_filter marker_of_item (getUniqueConsumers data)"
  by (auto simp: updateMarkers_def foldl_push_marker)

lemma ranked_upper_case: "getUniqueConsumers (results_of [upper_case_theft]) = [upper_case_theft]"
  by code_simp

lemma ranked_pair:
  "getUniqueConsumers (results_of [theft_record, mild_without_latitude])
     = [theft_record, mild_without_latitude]"
  by code_simp

lemma ranked_infinity: "getUniqueConsumers (results_of [theft_at_infinity]) = [theft_at_infinity]"
  by code_simp

lemma parseFloat_not_available: "parseFloat (JString ''N/A'') = NaN"
  by (simp add: parseFloat_def parse_float_string_def unsigned_literal_def is_white_space_def
      is_digit_def)

lemma parseFloat_Infinity: "parseFloat (JString ''Infinity'') = PosInf"
  by (simp add: parseFloat_def parse_float_string_def unsigned_literal_def is_white_space_def
      is_digit_def)

lemma risk_percent_mild_record: "risk_percent mild_record = Some ''14''"
  by code_simp

lemma product_mild_record:
  "js_times (score_or_zero mild_record) (Fin 100) = Fin (8162774324609023 / 562949953421312)"
  by code_simp

lemma lower_case_classes:
  "toLowerCase ''normal'' = ''normal''" "toLowerCase ''mild'' = ''mild''"
  "toLowerCase ''theft'' = ''theft''" "toLowerCase ''critical'' = ''critical''"
  by (simp_all add: toLowerCase_def lower_char_def)

text \<open>
  C3, as amended: the class is compared in lower case. A record whose \<open>risk_class\<close> is
  \<open>normal\<close>, or is absent, or is any string that in lower case is none of \<open>theft\<close>,
  \<open>critical\<close> and \<open>mild\<close>, never produces a marker. Of the records whose latitude and
  longitude parse (the others are skipped before the class is looked at), one whose class
  in lower case is \<open>mild\<close> produces a yellow marker, and one whose class in lower case is
  \<open>theft\<close> or \<open>critical\<close> a red marker. The markers on the map are those of the
  ranked records, in order.
\<close>

theorem marker_colour_by_class:
  "(risk_class item = Some ''normal'' \<longrightarrow> marker_of_item item = None)
   \<and> (toLowerCase (risk_or_empty item) \<notin> {''theft'', ''critical'', ''mild''}
        \<longrightarrow> marker_of_item item = None)
   \<and> (\<not> isNaN (parseFloat (latitude item)) \<and> \<not> isNaN (parseFloat (longitude item)) \<longrightarrow>
        (toLowerCase (risk_or_empty item) = ''mild''
           \<longrightarrow> map_option fillColor (marker_of_item item) = Some yellow)
        \<and> (toLowerCase (risk_or_empty item) \<in> {''theft'', ''critical''}
           \<longrightarrow> map_option fillColor (marker_of_item item) = Some red))
   \<and> (googleMapRef st \<noteq> None \<longrightarrow>
        markersRef (updateMarkers data st)
          = List.map_filter marker_of_item (getUniqueConsumers data))"
proof -
  have "marker_of_item item = None" if "risk_class item = Some ''normal''"
    using that by (simp add: marker_of_item_def Let_def risk_or_empty_def lower_case_classes)
  moreover have "marker_of_item item = None"
    if "toLowerCase (risk_or_empty item) \<notin> {''theft'', ''critical'', ''mild''}"
    using that by (simp add: marker_of_item_def Let_def)
  moreover have "map_option fillColor (marker_of_item item) = Some yellow"
    if "\<not> isNaN (parseFloat (latitude item))" "\<not> isNaN (parseFloat (longitude item))"
      "toLowerCase (risk_or_empty item) = ''mild''"
    using that by (simp add: marker_of_item_def Let_def)
  moreover have "map_option fillColor (marker_of_item item) = Some red"
    if "\<not> isNaN (parseFloat (latitude item))" "\<not> isNaN (parseFloat (longitude item))"
      "toLowerCase (risk_or_empty item) \<in> {''theft'', ''critical''}"
    using that by (auto simp: marker_of_item_def Let_def)
  ultimately show ?thesis using updateMarkers_ready by blast
qed

theorem marker_colour_by_class_witness:
  "risk_class record_A = Some ''normal'' \<and> marker_of_item record_A = None
   \<and> toLowerCase (risk_or_empty suspicious_record) \<notin> {''theft'', ''critical'', ''mild''}
   \<and> marker_of_item suspicious_record = None
   \<and> map_option fillColor (marker_of_item mild_record) = Some yellow
   \<and> map_option fillColor (marker_of_item theft_record) = Some red
   \<and> markersRef (updateMarkers (results_of [theft_record]) ready)
        = List.map_filter marker_of_item (getUniqueConsumers (results_of [theft_record]))"
proof -
  have a: "risk_class record_A = Some ''normal''" by (simp add: record_A_def)
  have "toLowerCase ''Suspicious'' = ''suspicious''" by code_simp
  then have s: "toLowerCase (risk_or_empty suspicious_record) \<notin> {''theft'', ''critical'', ''mild''}"
    by (simp add: suspicious_record_def risk_or_empty_def)
  have m: "\<not> isNaN (parseFloat (latitude mild_record))"
      "\<not> isNaN (parseFloat (longitude mild_record))"
      "toLowerCase (risk_or_empty mild_record) = ''mild''"
    by (simp_all add: mild_record_def parseFloat_number risk_or_empty_def lower_case_classes)
  have t: "\<not> isNaN (parseFloat (latitude theft_record))"
      "\<not> isNaN (parseFloat (longitude theft_record))"
      "toLowerCase (risk_or_empty theft_record) \<in> {''theft'', ''critical''}"
    by (simp_all add: theft_record_def parseFloat_number risk_or_empty_def lower_case_classes)
  have r: "googleMapRef ready \<noteq> None" by (simp add: ready_def)
  have 1: "marker_of_item record_A = None"
    using marker_colour_by_class [of record_A] a by blast
  have 2: "marker_of_item suspicious_record = None"
    using marker_colour_by_class [of suspicious_record] s by blast
  have 3: "map_option fillColor (marker_of_item mild_record) = Some yellow"
    using marker_colour_by_class [of mild_record] m by blast
  have 4: "map_option fillColor (marker_of_item theft_record) = Some red"
    using marker_colour_by_class [of theft_record] t by blast
  have 5: "markersRef (updateMarkers (results_of [theft_record]) ready)
        = List.map_filter marker_of_item (getUniqueConsumers (results_of [theft_record]))"
    using marker_colour_by_class [of _ ready "results_of [theft_record]"] r by blast
  show ?thesis using a s 1 2 3 4 5 by (intro conjI)
qed

text \<open>
  C3 as stated fails: \<open>THEFT\<close> is none of the strings \<open>normal\<close>, \<open>mild\<close>,
  \<open>critical\<close> and \<open>theft\<close>, yet a ranked record of that class whose coordinates parse
  produces a marker, a red one: the class is compared in lower case.
\<close>

theorem upper_case_class_counterexample:
  "risk_class upper_case_theft = Some ''THEFT''
   \<and> ''THEFT'' \<notin> {''normal'', ''mild'', ''critical'', ''theft''}
   \<and> \<not> isNaN (parseFloat (latitude upper_case_theft))
   \<and> \<not> isNaN (parseFloat (longitude upper_case_theft))
   \<and> getUniqueConsumers (results_of [upper_case_theft]) = [upper_case_theft]
   \<and> map_option fillColor (marker_of_item upper_case_theft) = Some red
   \<and> length (markersRef (updateMarkers (results_of [upper_case_theft]) ready)) = 1"
proof -
  have l: "toLowerCase ''THEFT'' = ''theft''" by code_simp
  have c: "\<not> isNaN (parseFloat (latitude upper_case_theft))"
      "\<not> isNaN (parseFloat (longitude upper_case_theft))"
    by (simp_all add: upper_case_theft_def theft_record_def parseFloat_number)
  have k: "risk_class upper_case_theft = Some ''THEFT''"
    by (simp add: upper_case_theft_def)
  then have "toLowerCase (risk_or_empty upper_case_theft) = ''theft''"
    by (simp add: risk_or_empty_def l)
  with c have m: "map_option fillColor (marker_of_item upper_case_theft) = Some red"
    by (simp add: marker_of_item_def Let_def)
  then obtain mk where "marker_of_item upper_case_theft = Some mk" by auto
  moreover have "googleMapRef ready \<noteq> None" by (simp add: ready_def)
  ultimately have "length (markersRef (updateMarkers (results_of [upper_case_theft]) ready)) = 1"
    by (simp add: updateMarkers_ready ranked_upper_case List.map_filter_simps)
  then show ?thesis using k c m ranked_upper_case by simp
qed

text \<open>
  C6, as amended: a record whose latitude or longitude parses to \<open>NaN\<close> (as the
  latitude \<open>N/A\<close> does) is skipped, and the pass over the ranked records completes with
  the markers of the other records.
\<close>

theorem unparsable_coordinates_skipped:
  "(isNaN (parseFloat (latitude item)) \<or> isNaN (parseFloat (longitude item)) \<longrightarrow>
      marker_of_item item = None
      \<and> (getUniqueConsumers data = xs @ item # ys \<and> googleMapRef st \<noteq> None \<longrightarrow>
           markersRef (updateMarkers data st) = List.map_filter marker_of_item (xs @ ys)))
   \<and> (latitude item = JString ''N/A'' \<longrightarrow> marker_of_item item = None)"
proof -
  have skip: "marker_of_item item = None"
    if "isNaN (parseFloat (latitude item)) \<or> isNaN (parseFloat (longitude item))"
    using that by (auto simp: marker_of_item_def Let_def)
  have "markersRef (updateMarkers data st) = List.map_filter marker_of_item (xs @ ys)"
    if "isNaN (parseFloat (latitude item)) \<or> isNaN (parseFloat (longitude item))"
      "getUniqueConsumers data = xs @ item # ys" "googleMapRef st \<noteq> None"
    using that skip by (simp add: updateMarkers_ready List.map_filter_def)
  moreover have "marker_of_item item = None" if "latitude item = JString ''N/A''"
    using that skip by (simp add: parseFloat_not_available isNaN_def)
  ultimately show ?thesis using skip by blast
qed

theorem unparsable_coordinates_skipped_witness:
  "isNaN (parseFloat (latitude mild_without_latitude))
   \<and> latitude mild_without_latitude = JString ''N/A''
   \<and> marker_of_item mild_without_latitude = None
   \<and> getUniqueConsumers (results_of [theft_record, mild_without_latitude])
        = [theft_record] @ mild_without_latitude # []
   \<and> markersRef (updateMarkers (results_of [theft_record, mild_without_latitude]) ready)
        = List.map_filter marker_of_item ([theft_record] @ [])"
proof -
  have l: "latitude mild_without_latitude = JString ''N/A''"
    by (simp add: mild_without_latitude_def)
  then have n: "isNaN (parseFloat (latitude mild_without_latitude))"
    by (simp add: parseFloat_not_available isNaN_def)
  have g: "getUniqueConsumers (results_of [theft_record, mild_without_latitude])
      = [theft_record] @ mild_without_latitude # []"
    by (simp add: ranked_pair)
  have r: "googleMapRef ready \<noteq> None" by (simp add: ready_def)
  show ?thesis
    using unparsable_coordinates_skipped
      [of mild_without_latitude "results_of [theft_record, mild_without_latitude]"
        "[theft_record]" "[]" ready] l n g r
    by blast
qed

text \<open>
  C6 as stated fails: the latitude \<open>Infinity\<close> does not parse as a finite number, and
  the record is not skipped: the only \<open>NaN\<close> is tested for, and a marker is constructed
  at an infinite latitude.
\<close>

theorem infinite_latitude_counterexample:
  "parseFloat (latitude theft_at_infinity) = PosInf
   \<and> getUniqueConsumers (results_of [theft_at_infinity]) = [theft_at_infinity]
   \<and> map_option position (marker_of_item theft_at_infinity) = Some (PosInf, fl (772 / 10))
   \<and> length (markersRef (updateMarkers (results_of [theft_at_infinity]) ready)) = 1"
proof -
  have p: "map_option position (marker_of_item theft_at_infinity) = Some (PosInf, fl (772 / 10))"
    by (simp add: marker_of_item_def theft_at_infinity_def theft_record_def
        parseFloat_Infinity isNaN_def risk_or_empty_def lower_case_classes Let_def)
      (simp add: parseFloat_def fl_not_NaN)
  then obtain m where "marker_of_item theft_at_infinity = Some m" by auto
  moreover have "googleMapRef ready \<noteq> None" by (simp add: ready_def)
  moreover have "parseFloat (latitude theft_at_infinity) = PosInf"
    by (simp add: theft_at_infinity_def parseFloat_Infinity)
  ultimately show ?thesis using p
    by (simp add: updateMarkers_ready ranked_infinity List.map_filter_simps)
qed

text \<open>
  C8, as amended: the popup of a marker shows the record's \<open>consumer_id\<close> and the
  integer nearest to the binary64 product of the score (0 when absent) and 100, a half
  rounded away from zero, for a product below \<open>10\<^sup>2\<^sup>1\<close> in magnitude.
\<close>

theorem popup_shows_id_and_percent:
  assumes "marker_of_item item = Some m"
    and "js_times (score_or_zero item) (Fin 100) = Fin x"
    and "\<bar>x\<bar> < 10 ^ 21"
  shows "content m = Some (popup_content (ToString (consumer_id item))
           ((if x < 0 then ''-'' else []) @ decimal_digits (nat \<lfloor>\<bar>x\<bar> + 1 / 2\<rfloor>)))"
proof -
  from assms(1) have "content m
      = map_option (popup_content (ToString (consumer_id item))) (risk_percent item)"
    by (auto simp: marker_of_item_def Let_def split: if_splits)
  then show ?thesis
    using assms(2,3) by (simp add: risk_percent_def toFixed0_round_half_up)
qed

lemma marker_of_mild_record:
  "marker_of_item mild_record
     = Some \<lparr>position = (fl (286 / 10), fl (772 / 10)), fillColor = yellow,
         title = ''Consumer: C7 (mild)'', content = Some (popup_content ''C7'' ''14'')\<rparr>"
  by (simp add: marker_of_item_def Let_def risk_percent_mild_record)
     (simp add: mild_record_def parseFloat_def isNaN_def fl_not_NaN risk_or_empty_def
        lower_case_classes ToString_def)

theorem popup_shows_id_and_percent_witness:
  "marker_of_item mild_record
     = Some \<lparr>position = (fl (286 / 10), fl (772 / 10)), fillColor = yellow,
         title = ''Consumer: C7 (mild)'', content = Some (popup_content ''C7'' ''14'')\<rparr>
   \<and> js_times (score_or_zero mild_record) (Fin 100) = Fin (8162774324609023 / 562949953421312)
   \<and> decimal_digits (nat \<lfloor>\<bar>8162774324609023 / 562949953421312 :: rat\<bar> + 1 / 2\<rfloor>) = ''14''"
proof -
  have b: "\<bar>8162774324609023 / 562949953421312 :: rat\<bar> < 10 ^ 21" by simp
  have "popup_content ''C7'' ''14'' = popup_content ''C7''
      (decimal_digits (nat \<lfloor>\<bar>8162774324609023 / 562949953421312 :: rat\<bar> + 1 / 2\<rfloor>))"
    using popup_shows_id_and_percent [OF marker_of_mild_record product_mild_record b]
    by (simp add: mild_record_def ToString_def)
  then have "decimal_digits (nat \<lfloor>\<bar>8162774324609023 / 562949953421312 :: rat\<bar> + 1 / 2\<rfloor>) = ''14''"
    by (simp add: popup_content_def)
  then show ?thesis using marker_of_mild_record product_mild_record by simp
qed

text \<open>
  C8 as stated fails: the score written 0.145 is the binary64 value just below it, its
  product with 100 is 14.499999999999998, and the popup shows 14%, not 15%.
\<close>

theorem half_percent_counterexample:
  "aggregate_risk_score mild_record = Some (145 / 1000)
   \<and> map_option content (marker_of_item mild_record) = Some (Some (popup_content ''C7'' ''14''))
   \<and> popup_content ''C7'' ''14'' \<noteq> popup_content ''C7'' ''15''"
  by (simp add: marker_of_mild_record) (simp add: mild_record_def popup_content_def)

section \<open>The pass of getUniqueConsumers\<close>

lemma js_gt_undefined: "\<not> js_gt a None" "\<not> js_gt None b"
  by (simp_all add: js_gt_def ToNumber_def) (cases "ToNumber b", simp_all add: ToNumber_def)

lemma addConsumer_other:
  "k \<noteq> ToString (consumer_id item) \<Longrightarrow> map_of (addConsumer obj item) k = map_of obj k"
  by (simp add: addConsumer_def Let_def update_conv' js_gt_undefined split: option.splits)

lemma addConsumer_stored:
  "map_of obj (ToString (consumer_id item)) = Some stored \<Longrightarrow>
   map_of (addConsumer obj item) (ToString (consumer_id item))
     = Some (if js_gt (score item) (score stored) then item else stored)"
  by (simp add: addConsumer_def Let_def update_conv')















section \<open>Properties of the ranking\<close>

lemma foldl_addConsumer_absent_stored:
  assumes "map_of obj k = Some stored" and "aggregate_risk_score stored = None"
  shows "map_of (foldl addConsumer obj items) k = Some stored"
  using assms(1)
proof (induction items arbitrary: obj)
  case Nil
  then show ?case by simp
next
  case (Cons y ys)
  have "map_of (addConsumer obj y) k = Some stored"
  proof (cases "k = ToString (consumer_id y)")
    case True
    have "\<not> js_gt (score y) (score stored)"
      using assms(2) by (simp add: score_def js_gt_undefined)
    with True Cons.prems show ?thesis by (simp add: addConsumer_stored)
  next
    case False
    with Cons.prems show ?thesis by (simp add: addConsumer_other)
  qed
  then have "map_of (foldl addConsumer (addConsumer obj y) ys) k = Some stored"
    by (rule Cons.IH)
  then show ?case by simp
qed

text \<open>
  C10: in the pass of \<open>getUniqueConsumers\<close>, an item whose \<open>aggregate_risk_score\<close> is
  absent never replaces the record already stored for its \<open>consumer_id\<close>, and a stored
  record whose score is absent is not replaced by the item (the comparison with
  \<open>undefined\<close> is false both ways); such a stored record is still the stored one after
  any further items, whatever their scores. An absent score is not read as 0.
\<close>

theorem absent_score_keeps_first:
  "(map_of obj (ToString (consumer_id item)) = Some stored
      \<and> (aggregate_risk_score item = None \<or> aggregate_risk_score stored = None)
     \<longrightarrow> addConsumer obj item = obj)
   \<and> (map_of obj k = Some stored \<and> aggregate_risk_score stored = None
     \<longrightarrow> map_of (foldl addConsumer obj items) k = Some stored)"
proof -
  have "addConsumer obj item = obj"
    if "map_of obj (ToString (consumer_id item)) = Some stored"
      "aggregate_risk_score item = None \<or> aggregate_risk_score stored = None"
  proof -
    from that(2) have "\<not> js_gt (score item) (score stored)"
      by (auto simp: score_def js_gt_undefined)
    with that(1) show ?thesis by (simp add: addConsumer_def Let_def)
  qed
  then show ?thesis using foldl_addConsumer_absent_stored by blast
qed

theorem absent_score_keeps_first_witness:
  "map_of [(''A'', scored_A)] (ToString (consumer_id unscored_A)) = Some scored_A
   \<and> aggregate_risk_score unscored_A = None
   \<and> addConsumer [(''A'', scored_A)] unscored_A = [(''A'', scored_A)]
   \<and> map_of [(''A'', unscored_A)] ''A'' = Some unscored_A
   \<and> map_of (foldl addConsumer [(''A'', unscored_A)] [scored_A, record_B]) ''A'' = Some unscored_A"
proof -
  have a: "map_of [(''A'', scored_A)] (ToString (consumer_id unscored_A)) = Some scored_A"
    by (simp add: unscored_A_def ToString_def)
  have b: "aggregate_risk_score unscored_A = None" by (simp add: unscored_A_def)
  have c: "map_of [(''A'', unscored_A)] ''A'' = Some unscored_A" by simp
  show ?thesis
    using absent_score_keeps_first
        [where obj = "[(''A'', scored_A)]" and item = unscored_A and stored = scored_A]
      absent_score_keeps_first
        [where obj = "[(''A'', unscored_A)]" and stored = unscored_A and k = "''A''"
           and items = "[scored_A, record_B]"]
      a b c
    by blast
qed





text \<open>
  Of two records of one consumer with the scores 0.3 and 0.7, the one with 0.7 is kept,
  in either order.
\<close>

lemma greater_score_kept:
  "getUniqueConsumers (results_of [low_A, scored_A]) = [scored_A]"
  "getUniqueConsumers (results_of [scored_A, low_A]) = [scored_A]"
  by code_simp+

text \<open>
  A record whose \<open>consumer_id\<close> is the name of a property of \<open>Object.prototype\<close> is never
  stored: the read finds the inherited property.
\<close>

lemma prototype_key_dropped:
  "getUniqueConsumers (results_of [constructor_record, theft_record]) = [theft_record]"
  by code_simp

text \<open>
  C1 at the input of two records of consumer A, the first without a score and the second
  with the score 0.7: the ranked view keeps the first, the record whose score reads as 0
  everywhere else in the code (\<open>score_or_zero\<close>), not the record with the strictly greatest
  score.
\<close>

theorem absent_score_shadows_greater:
  "getUniqueConsumers (results_of [unscored_A, scored_A]) = [unscored_A]
   \<and> aggregate_risk_score unscored_A = None
   \<and> aggregate_risk_score scored_A = Some (7 / 10)
   \<and> score_or_zero unscored_A = Fin 0"
  by code_simp

end
